theory Spec2Isabelle
  imports Main "HOL-Library.Word" "HOL-Library.Monad_Syntax"
begin

unbundle bit_operations_syntax

section \<open>Fixed-width integers of the C source\<close>

text \<open>
  The header \<^verbatim>\<open>byteswap.h\<close> works on \<^verbatim>\<open>uint16_t\<close>, \<^verbatim>\<open>uint32_t\<close> and
  \<^verbatim>\<open>uint64_t\<close>. The operands of \<^verbatim>\<open>bswap_16\<close> are promoted to \<^verbatim>\<open>int\<close>,
  which is 32 bits wide in two's complement on every target of the header; it is
  a 32-bit word read through \<open>sint\<close>.
\<close>

type_synonym uint16_t = "16 word"
type_synonym uint32_t = "32 word"
type_synonym uint64_t = "64 word"
type_synonym c_int = "32 word"

section \<open>The hand-written fallbacks of byteswap.h\<close>

text \<open>
  \<^verbatim>\<open>return (x >> 8) | (x << 8);\<close> The parameter is promoted to \<^verbatim>\<open>int\<close> before
  the shifts, \<^verbatim>\<open>>>\<close> on \<^verbatim>\<open>int\<close> is the arithmetic shift, and the \<^verbatim>\<open>int\<close>
  result is converted to \<^verbatim>\<open>uint16_t\<close> by the return, which keeps the low 16 bits.
\<close>

definition bswap_16 :: "uint16_t \<Rightarrow> uint16_t" where
  "bswap_16 x =
     (let p = (ucast x :: c_int)
      in ucast (signed_drop_bit 8 p OR push_bit 8 p))"

definition bswap_32 :: "uint32_t \<Rightarrow> uint32_t" where
  "bswap_32 x =
     drop_bit 24 (x AND 0xff000000) OR
     drop_bit 8 (x AND 0x00ff0000) OR
     push_bit 8 (x AND 0x0000ff00) OR
     push_bit 24 (x AND 0x000000ff)"

definition bswap_64 :: "uint64_t \<Rightarrow> uint64_t" where
  "bswap_64 x =
     drop_bit 56 (x AND 0xff00000000000000) OR
     drop_bit 40 (x AND 0x00ff000000000000) OR
     drop_bit 24 (x AND 0x0000ff0000000000) OR
     drop_bit 8 (x AND 0x000000ff00000000) OR
     push_bit 8 (x AND 0x00000000ff000000) OR
     push_bit 24 (x AND 0x0000000000ff0000) OR
     push_bit 40 (x AND 0x000000000000ff00) OR
     push_bit 56 (x AND 0x00000000000000ff)"

section \<open>The same fallbacks with the undefined shifts of C as errors\<close>

text \<open>
  A shift of C has no defined result when the shift count reaches the width of
  the promoted left operand, and a left shift of a signed operand has none
  either when the operand is negative or the shifted value does not fit in
  \<^verbatim>\<open>int\<close>. The checked operations return \<open>None\<close> there; apart from that they
  compute what the operations above compute.
\<close>

definition shr_signed :: "c_int \<Rightarrow> nat \<Rightarrow> c_int option" where
  "shr_signed v n = (if n < 32 then Some (signed_drop_bit n v) else None)"

definition shl_signed :: "c_int \<Rightarrow> nat \<Rightarrow> c_int option" where
  "shl_signed v n =
     (if n < 32 \<and> 0 \<le> sint v \<and> sint v * 2 ^ n < 2 ^ 31
      then Some (push_bit n v) else None)"

definition shr_unsigned :: "'a::len word \<Rightarrow> nat \<Rightarrow> 'a word option" where
  "shr_unsigned v n = (if n < LENGTH('a) then Some (drop_bit n v) else None)"

definition shl_unsigned :: "'a::len word \<Rightarrow> nat \<Rightarrow> 'a word option" where
  "shl_unsigned v n = (if n < LENGTH('a) then Some (push_bit n v) else None)"

definition bswap_16_checked :: "uint16_t \<Rightarrow> uint16_t option" where
  "bswap_16_checked x =
     do {
       let p = (ucast x :: c_int);
       a \<leftarrow> shr_signed p 8;
       b \<leftarrow> shl_signed p 8;
       Some (ucast (a OR b))
     }"

definition bswap_32_checked :: "uint32_t \<Rightarrow> uint32_t option" where
  "bswap_32_checked x =
     do {
       a \<leftarrow> shr_unsigned (x AND 0xff000000) 24;
       b \<leftarrow> shr_unsigned (x AND 0x00ff0000) 8;
       c \<leftarrow> shl_unsigned (x AND 0x0000ff00) 8;
       d \<leftarrow> shl_unsigned (x AND 0x000000ff) 24;
       Some (a OR b OR c OR d)
     }"

definition bswap_64_checked :: "uint64_t \<Rightarrow> uint64_t option" where
  "bswap_64_checked x =
     do {
       a \<leftarrow> shr_unsigned (x AND 0xff00000000000000) 56;
       b \<leftarrow> shr_unsigned (x AND 0x00ff000000000000) 40;
       c \<leftarrow> shr_unsigned (x AND 0x0000ff0000000000) 24;
       d \<leftarrow> shr_unsigned (x AND 0x000000ff00000000) 8;
       e \<leftarrow> shl_unsigned (x AND 0x00000000ff000000) 8;
       f \<leftarrow> shl_unsigned (x AND 0x0000000000ff0000) 24;
       g \<leftarrow> shl_unsigned (x AND 0x000000000000ff00) 40;
       h \<leftarrow> shl_unsigned (x AND 0x00000000000000ff) 56;
       Some (a OR b OR c OR d OR e OR f OR g OR h)
     }"

section \<open>Bytes of a word\<close>

text \<open>Byte \<open>i\<close> of a word, byte 0 being the least significant one.\<close>

definition byte_at :: "'a::len word \<Rightarrow> nat \<Rightarrow> 8 word" where
  "byte_at x i = ucast (drop_bit (8 * i) x)"

section \<open>The test program test.c\<close>

text \<open>
  The conversions \<^verbatim>\<open>%04x\<close>, \<^verbatim>\<open>%08x\<close> and \<^verbatim>\<open>%016llx\<close> of \<^verbatim>\<open>printf\<close>: the value
  in lower-case hexadecimal, padded with zeros on the left to the given width.
\<close>

definition hex_digit :: "nat \<Rightarrow> char" where
  "hex_digit d = ''0123456789abcdef'' ! (d mod 16)"

fun hex_digits :: "nat \<Rightarrow> string" where
  "hex_digits n =
     (if n < 16 then [hex_digit n]
      else hex_digits (n div 16) @ [hex_digit (n mod 16)])"

declare hex_digits.simps [simp del]

definition fmt_hex :: "nat \<Rightarrow> nat \<Rightarrow> string" where
  "fmt_hex w n = replicate (w - length (hex_digits n)) (CHR ''0'') @ hex_digits n"

definition nl :: string where
  "nl = [CHR 0x0A]"

record harness_run =
  stdout :: string
  exit_status :: int

text \<open>
  The three macros of the header resolve, when the program is compiled, to the
  functions of the operating system, to those of the system header, to the
  builtins of the compiler or to the fallbacks above. The program is therefore
  modelled for any three swap functions, its parameters.

  \<open>print_results\<close> is the first part of \<^verbatim>\<open>main\<close>, up to the comment
  \<^verbatim>\<open>Verify correctness\<close>: what it has written to the standard output.
\<close>

definition print_results ::
  "(uint16_t \<Rightarrow> uint16_t) \<Rightarrow> (uint32_t \<Rightarrow> uint32_t) \<Rightarrow> (uint64_t \<Rightarrow> uint64_t) \<Rightarrow> string" where
  "print_results sw16 sw32 sw64 =
     (let val16 = (0x1234 :: uint16_t);
          val32 = (0x12345678 :: uint32_t);
          val64 = (0x123456789ABCDEF0 :: uint64_t)
      in ''Byte swap test:'' @ nl @ nl
         @ ''16-bit: 0x'' @ fmt_hex 4 (unat val16) @ '' -> 0x''
             @ fmt_hex 4 (unat (sw16 val16)) @ nl
         @ ''32-bit: 0x'' @ fmt_hex 8 (unat val32) @ '' -> 0x''
             @ fmt_hex 8 (unat (sw32 val32)) @ nl
         @ ''64-bit: 0x'' @ fmt_hex 16 (unat val64) @ '' -> 0x''
             @ fmt_hex 16 (unat (sw64 val64)) @ nl)"

definition main ::
  "(uint16_t \<Rightarrow> uint16_t) \<Rightarrow> (uint32_t \<Rightarrow> uint32_t) \<Rightarrow> (uint64_t \<Rightarrow> uint64_t) \<Rightarrow> harness_run" where
  "main sw16 sw32 sw64 =
     (let out = print_results sw16 sw32 sw64;
          passed = (1 :: int);
          passed = (if sw16 0x1234 \<noteq> 0x3412 then 0 else passed);
          passed = (if sw32 0x12345678 \<noteq> 0x78563412 then 0 else passed);
          passed = (if sw64 0x123456789ABCDEF0 \<noteq> 0xF0DEBC9A78563412 then 0 else passed);
          out = out @ nl @ ''Test '' @ (if passed \<noteq> 0 then ''PASSED'' else ''FAILED'')
                  @ ''!'' @ nl
      in \<lparr> stdout = out, exit_status = (if passed \<noteq> 0 then 0 else 1) \<rparr>)"

text \<open>The program compiled with the hand-written fallbacks.\<close>

definition main_fallback :: harness_run where
  "main_fallback = main bswap_16 bswap_32 bswap_64"

section \<open>Bits of the swapped words\<close>

text \<open>
  The masks of the source as shifted runs of eight one bits, and for each
  fallback the position in the argument that each bit of the result comes from.
\<close>

lemma masks_16:
  "(0xFF :: uint16_t) = mask 8"
  "(0xFF00 :: uint16_t) = push_bit 8 (mask 8)"
  by (simp_all add: mask_numeral)

lemma masks_int:
  "(0xFF :: int) = mask 8"
  "(0xFF00 :: int) = push_bit 8 (mask 8)"
  by (simp_all add: mask_numeral)

lemma masks_32:
  "(0xff000000 :: uint32_t) = push_bit 24 (mask 8)"
  "(0x00ff0000 :: uint32_t) = push_bit 16 (mask 8)"
  "(0x0000ff00 :: uint32_t) = push_bit 8 (mask 8)"
  "(0x000000ff :: uint32_t) = mask 8"
  by (simp_all add: mask_numeral)

lemma masks_64:
  "(0xff00000000000000 :: uint64_t) = push_bit 56 (mask 8)"
  "(0x00ff000000000000 :: uint64_t) = push_bit 48 (mask 8)"
  "(0x0000ff0000000000 :: uint64_t) = push_bit 40 (mask 8)"
  "(0x000000ff00000000 :: uint64_t) = push_bit 32 (mask 8)"
  "(0x00000000ff000000 :: uint64_t) = push_bit 24 (mask 8)"
  "(0x0000000000ff0000 :: uint64_t) = push_bit 16 (mask 8)"
  "(0x000000000000ff00 :: uint64_t) = push_bit 8 (mask 8)"
  "(0x00000000000000ff :: uint64_t) = mask 8"
  by (simp_all add: mask_numeral)

lemma bswap_16_unpromoted: "bswap_16 x = drop_bit 8 x OR push_bit 8 x"
  unfolding bswap_16_def Let_def
  by (rule bit_word_eqI) (auto simp: bit_simps)

lemma bit_bswap_16:
  "bit (bswap_16 x) n = (n < 16 \<and> bit x (if n < 8 then n + 8 else n - 8))"
  unfolding bswap_16_unpromoted
  by (auto simp: bit_simps add.commute dest: bit_imp_le_length)

lemma bit_bswap_32:
  "bit (bswap_32 x) n =
     (n < 32 \<and> bit x (if n < 8 then n + 24 else if n < 16 then n + 8
                        else if n < 24 then n - 8 else n - 24))"
  unfolding bswap_32_def masks_32
  by (auto simp: bit_simps add.commute dest: bit_imp_le_length)

lemma bit_bswap_64:
  "bit (bswap_64 x) n =
     (n < 64 \<and> bit x
       (if n < 8 then n + 56 else if n < 16 then n + 40
        else if n < 24 then n + 24 else if n < 32 then n + 8
        else if n < 40 then n - 8 else if n < 48 then n - 24
        else if n < 56 then n - 40 else n - 56))"
  unfolding bswap_64_def masks_64
  by (auto simp: bit_simps add.commute dest: bit_imp_le_length)

section \<open>The 16-bit fallback and the masked formula\<close>

lemma bswap_16_masked_word:
  "bswap_16 x = (drop_bit 8 x AND 0xFF) OR (push_bit 8 x AND 0xFF00)"
  unfolding masks_16
  by (rule bit_word_eqI)
    (auto simp: bit_bswap_16 bit_simps add.commute dest: bit_imp_le_length)

lemma bswap_16_masked_int:
  "uint (bswap_16 x) =
     (drop_bit 8 (uint x) AND 0xFF) OR (push_bit 8 (uint x) AND 0xFF00)"
  unfolding masks_int
  by (rule bit_eqI)
    (auto simp: bit_bswap_16 bit_simps add.commute dest: bit_imp_le_length)

text \<open>
  Claim C1. For every 16-bit \<open>x\<close>, the fallback \<open>bswap_16\<close>, which evaluates
  \<^verbatim>\<open>(x >> 8) | (x << 8)\<close> on the promoted operand and keeps the low 16 bits of
  the result, is the masked formula \<^verbatim>\<open>((x>>8)&0xFF) | ((x<<8)&0xFF00)\<close>. The
  formula is read on 16-bit words in the second conjunct and on the integers,
  where no shift loses a bit, in the third.
\<close>

theorem bswap_16_is_masked_formula:
  "bswap_16 x =
     ucast (signed_drop_bit 8 (ucast x :: c_int) OR push_bit 8 (ucast x :: c_int))
   \<and> bswap_16 x = (drop_bit 8 x AND 0xFF) OR (push_bit 8 x AND 0xFF00)
   \<and> uint (bswap_16 x) =
       (drop_bit 8 (uint x) AND 0xFF) OR (push_bit 8 (uint x) AND 0xFF00)"
proof (intro conjI)
  show "bswap_16 x =
      ucast (signed_drop_bit 8 (ucast x :: c_int) OR push_bit 8 (ucast x :: c_int))"
    by (simp add: bswap_16_def Let_def)
  show "bswap_16 x = (drop_bit 8 x AND 0xFF) OR (push_bit 8 x AND 0xFF00)"
    by (rule bswap_16_masked_word)
  show "uint (bswap_16 x) =
      (drop_bit 8 (uint x) AND 0xFF) OR (push_bit 8 (uint x) AND 0xFF00)"
    by (rule bswap_16_masked_int)
qed

section \<open>Byte reversal\<close>

text \<open>Each byte of the result, index by index.\<close>

lemma bytes_of_bswap_32:
  "byte_at (bswap_32 x) 0 = byte_at x 3"
  "byte_at (bswap_32 x) 1 = byte_at x 2"
  "byte_at (bswap_32 x) 2 = byte_at x 1"
  "byte_at (bswap_32 x) 3 = byte_at x 0"
  by (rule bit_word_eqI;
      auto simp: byte_at_def bit_simps bit_bswap_32 add.commute)+

lemma bytes_of_bswap_64:
  "byte_at (bswap_64 x) 0 = byte_at x 7"
  "byte_at (bswap_64 x) 1 = byte_at x 6"
  "byte_at (bswap_64 x) 2 = byte_at x 5"
  "byte_at (bswap_64 x) 3 = byte_at x 4"
  "byte_at (bswap_64 x) 4 = byte_at x 3"
  "byte_at (bswap_64 x) 5 = byte_at x 2"
  "byte_at (bswap_64 x) 6 = byte_at x 1"
  "byte_at (bswap_64 x) 7 = byte_at x 0"
  by (rule bit_word_eqI;
      auto simp: byte_at_def bit_simps bit_bswap_64 add.commute)+

lemma byte_at_bswap_32:
  assumes "i < 4"
  shows "byte_at (bswap_32 x) i = byte_at x (3 - i)"
proof -
  from assms have "i \<in> {0, 1, 2, 3}"
    by auto
  then show ?thesis
    using bytes_of_bswap_32 [of x] by auto
qed

lemma byte_at_bswap_64:
  assumes "i < 8"
  shows "byte_at (bswap_64 x) i = byte_at x (7 - i)"
proof -
  from assms have "i \<in> {0, 1, 2, 3, 4, 5, 6, 7}"
    by auto
  then show ?thesis
    using bytes_of_bswap_64 [of x] by auto
qed

text \<open>
  Claim C2. The fallbacks \<open>bswap_32\<close> and \<open>bswap_64\<close> reverse the byte order:
  for every byte index \<open>i\<close> from 0 to 3, byte \<open>i\<close> of \<open>bswap_32 x\<close> is byte
  \<open>3 - i\<close> of \<open>x\<close>, and for every byte index \<open>j\<close> from 0 to 7, byte \<open>j\<close> of
  \<open>bswap_64 y\<close> is byte \<open>7 - j\<close> of \<open>y\<close>.
\<close>

theorem bswap_32_64_reverse_bytes:
  "(i < 4 \<longrightarrow> byte_at (bswap_32 x) i = byte_at x (3 - i))
   \<and> (j < 8 \<longrightarrow> byte_at (bswap_64 y) j = byte_at y (7 - j))"
  by (simp add: byte_at_bswap_32 byte_at_bswap_64)

theorem bswap_32_64_reverse_bytes_witness:
  "(1::nat) < 4
   \<and> byte_at (bswap_32 0x12345678) 1 = 0x34
   \<and> byte_at (0x12345678 :: uint32_t) (3 - 1) = 0x34
   \<and> (6::nat) < 8
   \<and> byte_at (bswap_64 0x123456789ABCDEF0) 6 = 0xDE
   \<and> byte_at (0x123456789ABCDEF0 :: uint64_t) (7 - 6) = 0xDE"
  using bswap_32_64_reverse_bytes [of 1 "0x12345678" 6 "0x123456789ABCDEF0"]
  by (simp add: byte_at_def bswap_32_def bswap_64_def)

section \<open>Fixed test vectors and fixed points\<close>

text \<open>
  Claim C4. The three test vectors of the test program hold for the fallbacks:
  \<open>bswap_16 0x1234 = 0x3412\<close>, \<open>bswap_32 0x12345678 = 0x78563412\<close> and
  \<open>bswap_64 0x123456789ABCDEF0 = 0xF0DEBC9A78563412\<close>.
\<close>

theorem bswap_test_vectors:
  "bswap_16 0x1234 = 0x3412
   \<and> bswap_32 0x12345678 = 0x78563412
   \<and> bswap_64 0x123456789ABCDEF0 = 0xF0DEBC9A78563412"
  by (simp add: bswap_16_def bswap_32_def bswap_64_def)

text \<open>
  Claim C8. The fixed points named by the specification:
  \<open>bswap_16 0x0000 = 0x0000\<close> and \<open>bswap_32 0xFFFFFFFF = 0xFFFFFFFF\<close>.
\<close>

theorem bswap_fixed_points:
  "bswap_16 0x0000 = 0x0000 \<and> bswap_32 0xFFFFFFFF = 0xFFFFFFFF"
  by (simp add: bswap_16_def bswap_32_def)

section \<open>Involutions\<close>

text \<open>
  Claim C5. \<open>bswap_64\<close> is an involution: \<open>bswap_64 (bswap_64 x) = x\<close> for every
  64-bit \<open>x\<close>.
\<close>

theorem bswap_64_involution: "bswap_64 (bswap_64 x) = x"
  by (rule bit_word_eqI) (auto simp: bit_bswap_64)

text \<open>
  Claim C6. \<open>bswap_32\<close> is an involution: \<open>bswap_32 (bswap_32 x) = x\<close> for every
  32-bit \<open>x\<close>.
\<close>

theorem bswap_32_involution: "bswap_32 (bswap_32 x) = x"
  by (rule bit_word_eqI) (auto simp: bit_bswap_32)

text \<open>
  Claim C7. \<open>bswap_16\<close> is an involution: \<open>bswap_16 (bswap_16 x) = x\<close> for every
  16-bit \<open>x\<close>.
\<close>

theorem bswap_16_involution: "bswap_16 (bswap_16 x) = x"
  by (rule bit_word_eqI) (auto simp: bit_bswap_16)

section \<open>No undefined shift\<close>

lemma sint_promoted: "sint (ucast (x :: uint16_t) :: c_int) = uint x"
  by (rule bit_eqI) (auto simp: bit_simps min_def dest: bit_imp_le_length)

lemma bswap_16_checked_total: "bswap_16_checked x = Some (bswap_16 x)"
proof -
  have "uint x < 2 ^ 16"
    using uint_bounded [of x] by simp
  then have "uint x * 2 ^ 8 < 2 ^ 31"
    by simp
  then show ?thesis
    by (simp add: bswap_16_checked_def bswap_16_def shr_signed_def
        shl_signed_def sint_promoted Let_def)
qed

lemma bswap_32_checked_total: "bswap_32_checked x = Some (bswap_32 x)"
  by (simp add: bswap_32_checked_def bswap_32_def shr_unsigned_def shl_unsigned_def)

lemma bswap_64_checked_total: "bswap_64_checked x = Some (bswap_64 x)"
  by (simp add: bswap_64_checked_def bswap_64_def shr_unsigned_def shl_unsigned_def)

text \<open>
  Claim C9. The fallbacks are total and have no error condition: for every
  \<open>uint16_t\<close>, \<open>uint32_t\<close> and \<open>uint64_t\<close> argument, no shift of the body
  reaches the width of its promoted operand or overflows \<^verbatim>\<open>int\<close>, so the
  checked evaluation never fails, and its result is the value of the same
  width that the fallback returns.
\<close>

theorem bswap_fallbacks_total:
  "bswap_16_checked x = Some (bswap_16 x)
   \<and> bswap_32_checked y = Some (bswap_32 y)
   \<and> bswap_64_checked z = Some (bswap_64 z)"
  by (simp add: bswap_16_checked_total bswap_32_checked_total bswap_64_checked_total)

section \<open>The test program\<close>

lemma main_exit_status:
  "exit_status (main sw16 sw32 sw64) =
     (if sw16 0x1234 = 0x3412 \<and> sw32 0x12345678 = 0x78563412
         \<and> sw64 0x123456789ABCDEF0 = 0xF0DEBC9A78563412
      then 0 else 1)"
  by (simp add: main_def Let_def)

lemma main_stdout:
  "stdout (main sw16 sw32 sw64) =
     print_results sw16 sw32 sw64 @ nl @ ''Test ''
       @ (if sw16 0x1234 = 0x3412 \<and> sw32 0x12345678 = 0x78563412
             \<and> sw64 0x123456789ABCDEF0 = 0xF0DEBC9A78563412
          then ''PASSED'' else ''FAILED'') @ ''!'' @ nl"
  by (simp add: main_def Let_def)

text \<open>
  Claim C3. Whatever the three swap functions are, the test program exits with
  status 0 when all three checks against the fixed vectors match, and with
  status 1, which is not 0, when any of the three mismatches.
\<close>

theorem main_exit_status_iff_checks:
  "(exit_status (main sw16 sw32 sw64) = 0) =
     (sw16 0x1234 = 0x3412 \<and> sw32 0x12345678 = 0x78563412
      \<and> sw64 0x123456789ABCDEF0 = 0xF0DEBC9A78563412)
   \<and> (exit_status (main sw16 sw32 sw64) = 1) =
     (\<not> (sw16 0x1234 = 0x3412 \<and> sw32 0x12345678 = 0x78563412
      \<and> sw64 0x123456789ABCDEF0 = 0xF0DEBC9A78563412))"
  by (simp add: main_exit_status)

text \<open>
  Claim C10. The printed verdict agrees with the exit status: in every run the
  program ends its output with the line \<^verbatim>\<open>Test PASSED!\<close> and returns 0, or ends
  it with the line \<^verbatim>\<open>Test FAILED!\<close> and returns 1; it returns nothing else.
\<close>

theorem main_verdict_agrees_with_status:
  "(stdout (main sw16 sw32 sw64) =
        print_results sw16 sw32 sw64 @ nl @ ''Test PASSED!'' @ nl
      \<and> exit_status (main sw16 sw32 sw64) = 0)
   \<or> (stdout (main sw16 sw32 sw64) =
        print_results sw16 sw32 sw64 @ nl @ ''Test FAILED!'' @ nl
      \<and> exit_status (main sw16 sw32 sw64) = 1)"
  by (simp add: main_stdout main_exit_status)

text \<open>
  The program compiled with the fallbacks: its whole output and its exit status.
\<close>

lemma fmt_hex_values:
  "fmt_hex 4 0x1234 = ''1234''"
  "fmt_hex 4 0x3412 = ''3412''"
  "fmt_hex 8 0x12345678 = ''12345678''"
  "fmt_hex 8 0x78563412 = ''78563412''"
  "fmt_hex 16 0x123456789ABCDEF0 = ''123456789abcdef0''"
  "fmt_hex 16 0xF0DEBC9A78563412 = ''f0debc9a78563412''"
  by (simp_all add: fmt_hex_def hex_digits.simps hex_digit_def)

lemma bswap_values:
  "bswap_16 0x1234 = 0x3412"
  "bswap_32 0x12345678 = 0x78563412"
  "bswap_64 0x123456789ABCDEF0 = 0xF0DEBC9A78563412"
  by (simp_all add: bswap_16_def bswap_32_def bswap_64_def)

lemma main_fallback_run:
  "stdout main_fallback =
     ''Byte swap test:'' @ nl @ nl
     @ ''16-bit: 0x1234 -> 0x3412'' @ nl
     @ ''32-bit: 0x12345678 -> 0x78563412'' @ nl
     @ ''64-bit: 0x123456789abcdef0 -> 0xf0debc9a78563412'' @ nl
     @ nl @ ''Test PASSED!'' @ nl"
  "exit_status main_fallback = 0"
  by (simp_all add: main_fallback_def main_def print_results_def Let_def
      bswap_values fmt_hex_values)

end
